theory Spec2Isabelle
  imports Complex_Main
begin

section \<open>Strings\<close>

text \<open>
  The scorer works on JavaScript strings. A string is modelled as a \<^typ>\<open>string\<close>, one
  \<^typ>\<open>char\<close> per UTF-16 code unit, which covers the code units below 256 (ASCII and
  Latin-1). In that range \<^verbatim>\<open>toLowerCase\<close> works unit by unit and keeps the length: the
  capital letters A to Z (65 to 90) and the Latin-1 capitals (192 to 222, except the
  multiplication sign 215) move up by 32, everything else stays. \<^verbatim>\<open>prompt.length\<close> is the
  length of the list.
\<close>

definition toLowerCaseChar :: "char \<Rightarrow> char" where
  "toLowerCaseChar c =
     (let n = (of_char c :: nat)
      in if (65 \<le> n \<and> n \<le> 90) \<or> (192 \<le> n \<and> n \<le> 214) \<or> (216 \<le> n \<and> n \<le> 222)
         then char_of (n + 32) else c)"

definition toLowerCase :: "string \<Rightarrow> string" where
  "toLowerCase s = map toLowerCaseChar s"

text \<open>\<^verbatim>\<open>s.startsWith(t)\<close> and \<^verbatim>\<open>s.includes(t)\<close>: the receiver comes first.\<close>

fun startsWith :: "string \<Rightarrow> string \<Rightarrow> bool" where
  "startsWith s [] = True"
| "startsWith [] (y # ys) = False"
| "startsWith (x # xs) (y # ys) = (x = y \<and> startsWith xs ys)"

fun includes_str :: "string \<Rightarrow> string \<Rightarrow> bool" where
  "includes_str [] t = (t = [])"
| "includes_str (x # xs) t = (startsWith (x # xs) t \<or> includes_str xs t)"

section \<open>The heuristic prompt scorer\<close>

text \<open>
  The explanation is one of seven template literals of \<^verbatim>\<open>server.js\<close>; a constructor
  stands for each, with the interpolated \<^verbatim>\<open>labItem\<close> as its argument where the template
  has one.
  \<^item> \<open>ForbiddenWord labItem\<close>: "ZERO SCORE: The prompt contains the forbidden word ..."
    (penalty scorer, line 270);
  \<^item> \<open>ExcellentB\<close>, \<open>GoodB\<close>, \<open>CreativeB\<close>: "Excellent prompt! Strong laboratory context
    ...", "Good prompt! The image has some laboratory context ...", "Creative prompt! The
    image may be more artistic ..." (penalty scorer, lines 300 to 304);
  \<^item> \<open>ExcellentA labItem\<close>, \<open>GoodA labItem\<close>, \<open>ArtisticA labItem\<close>: "Excellent prompt! The
    ... is clearly featured ...", "Good prompt! The ... is present in the image ...", "The
    prompt is creative but may have resulted in a more artistic interpretation ..."
    (rewarding scorer, lines 675 to 679).
\<close>

datatype explanation =
    ForbiddenWord string
  | ExcellentB
  | GoodB
  | CreativeB
  | ExcellentA string
  | GoodA string
  | ArtisticA string

record scoreResult =
  score :: int
  explanation :: explanation

definition scienceKeywordsA :: "string list" where
  "scienceKeywordsA =
     [''laboratory'', ''lab'', ''science'', ''scientific'', ''experiment'',
      ''research'', ''chemistry'', ''beaker'', ''flask'', ''test'', ''equipment'']"

definition scienceKeywordsB :: "string list" where
  "scienceKeywordsB =
     [''laboratory'', ''lab'', ''science'', ''scientific'', ''experiment'',
      ''research'', ''chemistry'', ''beaker'', ''flask'', ''test'', ''equipment'',
      ''glass'', ''liquid'', ''container'', ''vessel'']"

text \<open>\<^verbatim>\<open>scienceKeywords.filter(word => promptLower.includes(word)).length\<close>\<close>

definition scienceCount :: "string list \<Rightarrow> string \<Rightarrow> int" where
  "scienceCount scienceKeywords promptLower =
     int (length (filter (\<lambda>word. includes_str promptLower word) scienceKeywords))"

text \<open>The science keywords bonus: \<^verbatim>\<open>Math.min(20, scienceCount * 5)\<close> in the rewarding
  scorer, \<^verbatim>\<open>Math.min(20, scienceCount * 4)\<close> in the penalty scorer.\<close>

definition keywordBonusA :: "int \<Rightarrow> int" where
  "keywordBonusA count = min 20 (count * 5)"

definition keywordBonusB :: "int \<Rightarrow> int" where
  "keywordBonusB count = min 20 (count * 4)"

subsection \<open>Variant A: the mention is rewarded (lines 644 to 684)\<close>

text \<open>The score before the random variation is added.\<close>

definition deterministicScoreA :: "string \<Rightarrow> string \<Rightarrow> int" where
  "deterministicScoreA prompt labItem =
     (let promptLower = toLowerCase prompt;
          labItemLower = toLowerCase labItem;
          mentionsLabItem = includes_str promptLower labItemLower;
          count = scienceCount scienceKeywordsA promptLower;
          score1 = 50;
          score2 = (if mentionsLabItem then score1 + 30 else score1);
          score3 = score2 + keywordBonusA count
      in score3)"

text \<open>
  \<open>randomDraw\<close> is the value of \<^verbatim>\<open>Math.floor(Math.random() * 10)\<close>, an integer from 0 to
  9, so that the variation \<open>randomDraw - 5\<close> lies between -5 and 4. The draw is an argument
  of the model: nothing else of the random source reaches the scorer.
\<close>

definition evaluatePromptA :: "int \<Rightarrow> string \<Rightarrow> string \<Rightarrow> scoreResult" where
  "evaluatePromptA randomDraw prompt labItem =
     (let score3 = deterministicScoreA prompt labItem;
          score4 = score3 + (randomDraw - 5);
          score5 = max 0 (min 100 score4);
          wording = (if score5 \<ge> 70 then ExcellentA labItem
                  else if score5 \<ge> 50 then GoodA labItem
                  else ArtisticA labItem)
      in \<lparr>score = score5, explanation = wording\<rparr>)"

subsection \<open>Variant B: the mention is penalised (lines 257 to 309)\<close>

text \<open>The score of the path without penalty, before the random variation is added.\<close>

definition deterministicScoreB :: "string \<Rightarrow> int" where
  "deterministicScoreB prompt =
     (let promptLower = toLowerCase prompt;
          count = scienceCount scienceKeywordsB promptLower;
          score1 = 50;
          score2 = score1 + keywordBonusB count;
          score3 = (if length prompt > 50 then score2 + 10 else score2);
          score4 = (if length prompt > 100 then score3 + 10 else score3)
      in score4)"

definition evaluatePromptB :: "int \<Rightarrow> string \<Rightarrow> string \<Rightarrow> scoreResult" where
  "evaluatePromptB randomDraw prompt labItem =
     (let promptLower = toLowerCase prompt;
          labItemLower = toLowerCase labItem;
          usedLabItemWord = includes_str promptLower labItemLower
      in if usedLabItemWord
         then \<lparr>score = 0, explanation = ForbiddenWord labItem\<rparr>
         else
           (let score4 = deterministicScoreB prompt;
                score5 = score4 + (randomDraw - 5);
                score6 = max 30 (min 100 score5);
                wording = (if score6 \<ge> 80 then ExcellentB
                        else if score6 \<ge> 60 then GoodB
                        else CreativeB)
            in \<lparr>score = score6, explanation = wording\<rparr>))"

section \<open>The score derived from the CLIP result\<close>

text \<open>
  \<^verbatim>\<open>evaluateWithCLIP\<close> derives its score from the parsed response of the classifier, a
  list with one entry per candidate label. An entry is modelled by its \<^verbatim>\<open>score\<close> field:
  \<open>Some v\<close> for a number \<open>v\<close>, \<open>None\<close> when the field is absent.

  The numbers are doubles. Their arithmetic is an argument of the model, a record of the
  operations the code uses: the double 0, the test for a falsy number (0, -0 and NaN, which
  \<^verbatim>\<open>||\<close> replaces), sum, difference, product and quotient, the literals 3, 100, 0.3 and
  0.5, and \<^verbatim>\<open>Math.round\<close>. What is proved holds for every such arithmetic, the doubles'
  included.
\<close>

text \<open>The value of \<^verbatim>\<open>Math.round\<close>: an integer, an infinity or NaN.\<close>

datatype rounded = Finite int | PosInfinity | NegInfinity | NotANumber

record 'n doubleOps =
  dzero :: 'n
  dfalsy :: "'n \<Rightarrow> bool"
  dadd :: "'n \<Rightarrow> 'n \<Rightarrow> 'n"
  dsub :: "'n \<Rightarrow> 'n \<Rightarrow> 'n"
  dmul :: "'n \<Rightarrow> 'n \<Rightarrow> 'n"
  ddiv :: "'n \<Rightarrow> 'n \<Rightarrow> 'n"
  three :: 'n
  hundred :: 'n
  pointThree :: 'n
  pointFive :: 'n
  dround :: "'n \<Rightarrow> rounded"

text \<open>\<^verbatim>\<open>Math.min(100, x)\<close>, \<^verbatim>\<open>Math.max(0, x)\<close> and \<^verbatim>\<open>x >= k\<close> on a rounded value; a
  comparison with NaN is false.\<close>

fun minHundred :: "rounded \<Rightarrow> rounded" where
  "minHundred (Finite i) = Finite (min 100 i)"
| "minHundred PosInfinity = Finite 100"
| "minHundred NegInfinity = NegInfinity"
| "minHundred NotANumber = NotANumber"

fun maxZero :: "rounded \<Rightarrow> rounded" where
  "maxZero (Finite i) = Finite (max 0 i)"
| "maxZero PosInfinity = PosInfinity"
| "maxZero NegInfinity = Finite 0"
| "maxZero NotANumber = NotANumber"

fun atLeast_num :: "rounded \<Rightarrow> int \<Rightarrow> bool" where
  "atLeast_num (Finite i) k = (k \<le> i)"
| "atLeast_num PosInfinity k = True"
| "atLeast_num NegInfinity k = False"
| "atLeast_num NotANumber k = False"

text \<open>\<^verbatim>\<open>result[i]\<close> is undefined past the end of the list; \<^verbatim>\<open>result[i]?.score || 0\<close> is
  the score of the entry, or 0 when the entry or its score is missing or the score is
  falsy.\<close>

definition at_index :: "'a list \<Rightarrow> nat \<Rightarrow> 'a option" where
  "at_index xs i = (if i < length xs then Some (xs ! i) else None)"

definition scoreOrZero :: "'n doubleOps \<Rightarrow> 'n option list \<Rightarrow> nat \<Rightarrow> 'n" where
  "scoreOrZero ops result i =
     (case at_index result i of
        None \<Rightarrow> dzero ops
      | Some None \<Rightarrow> dzero ops
      | Some (Some v) \<Rightarrow> if dfalsy ops v then dzero ops else v)"

text \<open>
  The explanations of \<^verbatim>\<open>evaluateWithCLIP\<close>, with the lab item and the rounded percentage
  they interpolate: "... appears to be prominently featured ... with high confidence",
  "... may be present in the image with moderate confidence", "... is not clearly visible
  or present in the image", and the fallback "AI evaluation completed with moderate
  confidence ... results are inconclusive".
\<close>

datatype clipExplanation =
    Prominent string rounded
  | MayBePresent string rounded
  | NotVisible string rounded
  | Inconclusive string

record clipEvaluation =
  clip_score :: rounded
  clip_explanation :: clipExplanation

text \<open>The single-top copy (\<^verbatim>\<open>server.js\<close>, lines 92 to 118). The parsed response is a list,
  so \<^verbatim>\<open>Array.isArray(result) && result.length > 0\<close> tests that it is not empty.\<close>

definition evaluateWithCLIP_single ::
  "'n doubleOps \<Rightarrow> string \<Rightarrow> 'n option list \<Rightarrow> clipEvaluation" where
  "evaluateWithCLIP_single ops labItem result =
     (if result \<noteq> []
      then
        (let labItemScore = scoreOrZero ops result 0;
             unrelatedScore = scoreOrZero ops result 3;
             score1 = maxZero (minHundred (dround ops
                        (dmul ops (dsub ops labItemScore (dmul ops unrelatedScore (pointThree ops)))
                           (hundred ops))));
             percent = dround ops (dmul ops labItemScore (hundred ops));
             wording = (if atLeast_num score1 70 then Prominent labItem percent
                        else if atLeast_num score1 40 then MayBePresent labItem percent
                        else NotVisible labItem percent)
         in \<lparr>clip_score = score1, clip_explanation = wording\<rparr>)
      else \<lparr>clip_score = Finite 50, clip_explanation = Inconclusive labItem\<rparr>)"

text \<open>The averaged copy (\<^verbatim>\<open>src/unnamed/part_000\<close>, lines 110 to 129).\<close>

definition evaluateWithCLIP_averaged ::
  "'n doubleOps \<Rightarrow> string \<Rightarrow> 'n option list \<Rightarrow> clipEvaluation" where
  "evaluateWithCLIP_averaged ops labItem result =
     (let labItemScore1 = scoreOrZero ops result 0;
          labItemScore2 = scoreOrZero ops result 1;
          labItemScore3 = scoreOrZero ops result 2;
          unrelatedScore = scoreOrZero ops result 4;
          avgLabScore = ddiv ops (dadd ops (dadd ops labItemScore1 labItemScore2) labItemScore3)
                          (three ops);
          finalScore = maxZero (minHundred (dround ops
                         (dmul ops (dsub ops avgLabScore (dmul ops unrelatedScore (pointFive ops)))
                            (hundred ops))));
          percent = dround ops (dmul ops avgLabScore (hundred ops));
          wording = (if atLeast_num finalScore 70 then Prominent labItem percent
                     else if atLeast_num finalScore 40 then MayBePresent labItem percent
                     else NotVisible labItem percent)
      in \<lparr>clip_score = finalScore, clip_explanation = wording\<rparr>)"

text \<open>
  The derivation as the spec words it, to be compared with the code: the confidence of the
  entry at a position, 0 for a missing one; the top confidence minus 0.3 times the
  unrelated one (the entry at position 3), or the average of the first three minus 0.5
  times the unrelated one (the entry at position 4); times 100, rounded, clamped to 0 and
  100.
\<close>

fun confidenceAt :: "'n doubleOps \<Rightarrow> 'n option list \<Rightarrow> nat \<Rightarrow> 'n" where
  "confidenceAt ops [] i = dzero ops"
| "confidenceAt ops (e # es) 0 =
     (case e of None \<Rightarrow> dzero ops | Some v \<Rightarrow> if dfalsy ops v then dzero ops else v)"
| "confidenceAt ops (e # es) (Suc i) = confidenceAt ops es i"

definition clampedPercent :: "'n doubleOps \<Rightarrow> 'n \<Rightarrow> rounded" where
  "clampedPercent ops x = maxZero (minHundred (dround ops (dmul ops x (hundred ops))))"

definition statedScoreSingle :: "'n doubleOps \<Rightarrow> 'n option list \<Rightarrow> rounded" where
  "statedScoreSingle ops xs =
     clampedPercent ops
       (dsub ops (confidenceAt ops xs 0) (dmul ops (confidenceAt ops xs 3) (pointThree ops)))"

definition statedScoreAveraged :: "'n doubleOps \<Rightarrow> 'n option list \<Rightarrow> rounded" where
  "statedScoreAveraged ops xs =
     clampedPercent ops
       (dsub ops
          (ddiv ops
             (dadd ops (dadd ops (confidenceAt ops xs 0) (confidenceAt ops xs 1))
                (confidenceAt ops xs 2))
             (three ops))
          (dmul ops (confidenceAt ops xs 4) (pointFive ops)))"

text \<open>
  Exact arithmetic on the rationals, with rounding to the nearest integer and halves
  upwards as \<^verbatim>\<open>Math.round\<close> does: an arithmetic to run the definitions on concrete lists.
\<close>

definition exactOps :: "rat doubleOps" where
  "exactOps =
     \<lparr>dzero = 0, dfalsy = (\<lambda>x. x = 0),
      dadd = (\<lambda>x y. x + y), dsub = (\<lambda>x y. x - y),
      dmul = (\<lambda>x y. x * y), ddiv = (\<lambda>x y. x / y),
      three = 3, hundred = 100, pointThree = 3 / 10, pointFive = 1 / 2,
      dround = (\<lambda>x. Finite \<lfloor>x + 1 / 2\<rfloor>)\<rparr>"

section \<open>The request handler\<close>

text \<open>
  The handler of \<^verbatim>\<open>POST /api/generate-and-evaluate\<close> reads three fields of the JSON
  body. A field is absent (\<open>None\<close>) or a text, as in the spec's data model; it is falsy
  when it is absent or the empty text.
\<close>

record requestBody =
  prompt :: "string option"
  labItem :: "string option"
  teamName :: "string option"

definition falsy :: "string option \<Rightarrow> bool" where
  "falsy v = (case v of None \<Rightarrow> True | Some s \<Rightarrow> s = [])"

text \<open>
  What the handler does besides answering, in order: a line written with
  \<^verbatim>\<open>console.log\<close> or \<^verbatim>\<open>console.error\<close> (the text of the line is left out), a call
  of the image generator with its prompt, a call of the CLIP evaluator with the image and
  the lab item, a call of the local scorer with the prompt and the lab item.
\<close>

datatype effect =
    ConsoleLog
  | ConsoleError
  | GenerateImage string
  | EvaluateWithCLIP string string
  | EvaluatePrompt string string

text \<open>
  \<open>Failure error\<close> is the JSON \<^verbatim>\<open>{ success: false, error }\<close>; \<open>Success imageUrl
  evaluation teamName labItem model\<close> is the JSON with \<^verbatim>\<open>success: true\<close>, the score and
  the explanation of the evaluation, and the other fields.
\<close>

datatype 'ev responseBody =
    Failure string
  | Success string 'ev string string string

record 'ev response =
  status :: nat
  body :: "'ev responseBody"

text \<open>
  The two collaborators are arguments of the model: \<open>generateImage prompt\<close> is \<open>Inr\<close> of
  the image in base64 or \<open>Inl\<close> of the message of the error it throws, and
  \<open>evaluateWithCLIP imageBase64 labItem\<close> is \<open>Inr\<close> of the evaluation or \<open>Inl\<close> of the
  message of the error. What a collaborator writes to the console belongs to its call. The
  result is the list of effects, in order, and the response sent. Past the test of the
  fields each of them is a text that is not empty, which \<open>the\<close> reads.
\<close>

text \<open>The handler of the CLIP copy (lines 122 to 169).\<close>

definition generateAndEvaluateCLIP ::
  "(string \<Rightarrow> string + string) \<Rightarrow> (string \<Rightarrow> string \<Rightarrow> string + 'ev) \<Rightarrow>
   requestBody \<Rightarrow> effect list \<times> 'ev response" where
  "generateAndEvaluateCLIP generateImage evaluateWithCLIP req =
     (if falsy (prompt req) \<or> falsy (labItem req) \<or> falsy (teamName req)
      then ([], \<lparr>status = 400,
                 body = Failure ''Missing required fields: prompt, labItem, or teamName''\<rparr>)
      else
        (let p = the (prompt req); l = the (labItem req); t = the (teamName req);
             step1 = [ConsoleLog, ConsoleLog, ConsoleLog, ConsoleLog, GenerateImage p]
         in case generateImage p of
              Inl message \<Rightarrow>
                (step1 @ [ConsoleError],
                 \<lparr>status = 500,
                  body = Failure (if message = [] then ''An error occurred'' else message)\<rparr>)
            | Inr imageBase64 \<Rightarrow>
                (let imageUrl = ''data:image/png;base64,'' @ imageBase64;
                     step2 = step1 @ [ConsoleLog, EvaluateWithCLIP imageBase64 l]
                 in case evaluateWithCLIP imageBase64 l of
                      Inl message \<Rightarrow>
                        (step2 @ [ConsoleError],
                         \<lparr>status = 500,
                          body = Failure (if message = [] then ''An error occurred''
                                          else message)\<rparr>)
                    | Inr evaluation \<Rightarrow>
                        (step2 @ [ConsoleLog, ConsoleLog, ConsoleLog],
                         \<lparr>status = 200,
                          body = Success imageUrl evaluation t l
                                   ''Stable Diffusion XL + CLIP''\<rparr>))))"

text \<open>
  The handler of the penalty copy (lines 311 to 377). It writes five lines about the
  request (lines 315 to 319) before it tests the fields. A failed image generation whose
  message contains "loading" is answered with 503, any other is thrown again and answered
  with 500. The evaluation is the local scorer of Variant B, which writes two lines itself;
  the random draw is an argument.
\<close>

definition generateAndEvaluatePenalty ::
  "(string \<Rightarrow> string + string) \<Rightarrow> int \<Rightarrow> requestBody \<Rightarrow> effect list \<times> scoreResult response" where
  "generateAndEvaluatePenalty generateImage randomDraw req =
     (let step0 = [ConsoleLog, ConsoleLog, ConsoleLog, ConsoleLog, ConsoleLog]
      in if falsy (prompt req) \<or> falsy (labItem req) \<or> falsy (teamName req)
         then (step0, \<lparr>status = 400, body = Failure ''Missing required fields''\<rparr>)
         else
           (let p = the (prompt req); l = the (labItem req); t = the (teamName req);
                step1 = step0 @ [ConsoleLog, GenerateImage p]
            in case generateImage p of
                 Inl message \<Rightarrow>
                   (if includes_str message ''loading''
                    then (step1 @ [ConsoleError],
                          \<lparr>status = 503, body = Failure ''Model loading, wait 30 seconds''\<rparr>)
                    else (step1 @ [ConsoleError, ConsoleError],
                          \<lparr>status = 500,
                           body = Failure (if message = [] then ''Server error''
                                           else message)\<rparr>))
               | Inr imageBase64 \<Rightarrow>
                   (let imageUrl = ''data:image/png;base64,'' @ imageBase64;
                        evaluation = evaluatePromptB randomDraw p l;
                        step2 = step1 @ [ConsoleLog, ConsoleLog, EvaluatePrompt p l,
                                         ConsoleLog, ConsoleLog]
                    in (step2 @ [ConsoleLog, ConsoleLog, ConsoleLog, ConsoleLog, ConsoleLog],
                        \<lparr>status = 200,
                         body = Success imageUrl evaluation t l ''Stable Diffusion XL''\<rparr>))))"

text \<open>The calls to a collaborator or to the scorer among the effects.\<close>

definition calls :: "effect list \<Rightarrow> effect list" where
  "calls effects = filter (\<lambda>e. e \<noteq> ConsoleLog \<and> e \<noteq> ConsoleError) effects"

section \<open>Facts about the string functions\<close>

lemmas js_string_simps = toLowerCase_def toLowerCaseChar_def char_of_def bit_0

lemma startsWith_iff: "startsWith s t \<longleftrightarrow> (\<exists>post. s = t @ post)"
  by (induction s t rule: startsWith.induct) auto

lemma includes_str_iff: "includes_str s t \<longleftrightarrow> (\<exists>pre post. s = pre @ t @ post)"
proof (induction s)
  case Nil
  show ?case by auto
next
  case (Cons x xs)
  have "(\<exists>pre post. x # xs = pre @ t @ post) \<longleftrightarrow>
        (\<exists>post. x # xs = t @ post) \<or> (\<exists>pre post. xs = pre @ t @ post)"
  proof
    assume "\<exists>pre post. x # xs = pre @ t @ post"
    then obtain pre post where e: "x # xs = pre @ t @ post" by blast
    show "(\<exists>post. x # xs = t @ post) \<or> (\<exists>pre post. xs = pre @ t @ post)"
    proof (cases pre)
      case Nil
      with e show ?thesis by auto
    next
      case (Cons y ys)
      with e have "xs = ys @ t @ post" by simp
      then show ?thesis by blast
    qed
  next
    assume "(\<exists>post. x # xs = t @ post) \<or> (\<exists>pre post. xs = pre @ t @ post)"
    then show "\<exists>pre post. x # xs = pre @ t @ post"
    proof
      assume "\<exists>post. x # xs = t @ post"
      then obtain post where "x # xs = [] @ t @ post" by auto
      then show ?thesis by blast
    next
      assume "\<exists>pre post. xs = pre @ t @ post"
      then obtain pre post where "x # xs = (x # pre) @ t @ post" by auto
      then show ?thesis by blast
    qed
  qed
  with Cons show ?case by (simp add: startsWith_iff)
qed

lemma includes_str_empty: "includes_str s []"
  by (cases s) simp_all

lemma includes_str_of_empty: "includes_str [] t \<longleftrightarrow> t = []"
  by simp

lemma toLowerCase_append: "toLowerCase (a @ b) = toLowerCase a @ toLowerCase b"
  by (simp add: toLowerCase_def)

lemma toLowerCase_Nil: "toLowerCase [] = []"
  by (simp add: toLowerCase_def)

lemma toLowerCase_eq_Nil: "toLowerCase s = [] \<longleftrightarrow> s = []"
  by (simp add: toLowerCase_def)

lemma includes_str_toLowerCase:
  "includes_str s t \<Longrightarrow> includes_str (toLowerCase s) (toLowerCase t)"
proof -
  assume "includes_str s t"
  then obtain pre post where "s = pre @ t @ post"
    unfolding includes_str_iff by blast
  then have "toLowerCase s = toLowerCase pre @ toLowerCase t @ toLowerCase post"
    by (simp add: toLowerCase_append)
  then show ?thesis unfolding includes_str_iff by blast
qed

lemma includes_str_trans:
  "includes_str a b \<Longrightarrow> includes_str b c \<Longrightarrow> includes_str a c"
proof -
  assume "includes_str a b" and "includes_str b c"
  then obtain p1 q1 p2 q2 where "a = p1 @ b @ q1" and "b = p2 @ c @ q2"
    unfolding includes_str_iff by blast
  then have "a = (p1 @ p2) @ c @ (q2 @ q1)" by simp
  then show ?thesis unfolding includes_str_iff by blast
qed

section \<open>The forbidden word\<close>

text \<open>
  Claim C1. In Variant B, whenever the lower-cased prompt contains the lower-cased lab item
  as a substring, the result is score 0 with the forbidden-word explanation, whatever the
  keywords, the length of the prompt and the random draw are.
\<close>

theorem evaluatePromptB_forbidden_word:
  "includes_str (toLowerCase p) (toLowerCase l) \<Longrightarrow>
   evaluatePromptB r p l = \<lparr>score = 0, explanation = ForbiddenWord l\<rparr>"
  by (simp add: evaluatePromptB_def)

theorem evaluatePromptB_forbidden_word_witness:
  "includes_str (toLowerCase ''A Laboratory BEAKER of glass'') (toLowerCase ''Beaker'') \<and>
   evaluatePromptB 9 ''A Laboratory BEAKER of glass'' ''Beaker'' =
     \<lparr>score = 0, explanation = ForbiddenWord ''Beaker''\<rparr>"
proof -
  have h: "includes_str (toLowerCase ''A Laboratory BEAKER of glass'') (toLowerCase ''Beaker'')"
    by (simp add: js_string_simps)
  from h evaluatePromptB_forbidden_word [OF h, of 9] show ?thesis by simp
qed

section \<open>Facts about the pieces of the score\<close>

lemma scienceCount_nonneg: "0 \<le> scienceCount ks pl"
  by (simp add: scienceCount_def)

lemma keywordBonusA_range: "0 \<le> c \<Longrightarrow> 0 \<le> keywordBonusA c \<and> keywordBonusA c \<le> 20"
  by (simp add: keywordBonusA_def)

lemma keywordBonusB_range: "0 \<le> c \<Longrightarrow> 0 \<le> keywordBonusB c \<and> keywordBonusB c \<le> 20"
  by (simp add: keywordBonusB_def)

lemma deterministicScoreA_mentioned:
  "includes_str (toLowerCase p) (toLowerCase l) \<Longrightarrow>
   deterministicScoreA p l = 80 + keywordBonusA (scienceCount scienceKeywordsA (toLowerCase p))"
  by (simp add: deterministicScoreA_def)

lemma deterministicScoreA_not_mentioned:
  "\<not> includes_str (toLowerCase p) (toLowerCase l) \<Longrightarrow>
   deterministicScoreA p l = 50 + keywordBonusA (scienceCount scienceKeywordsA (toLowerCase p))"
  by (simp add: deterministicScoreA_def)

lemma deterministicScoreB_range: "50 \<le> deterministicScoreB p \<and> deterministicScoreB p \<le> 90"
  using keywordBonusB_range [OF scienceCount_nonneg, of scienceKeywordsB "toLowerCase p"]
  by (simp add: deterministicScoreB_def Let_def)

lemma score_evaluatePromptA:
  "score (evaluatePromptA r p l) = max 0 (min 100 (deterministicScoreA p l + (r - 5)))"
  by (simp add: evaluatePromptA_def Let_def)

lemma score_evaluatePromptB_scored:
  "\<not> includes_str (toLowerCase p) (toLowerCase l) \<Longrightarrow>
   score (evaluatePromptB r p l) = max 30 (min 100 (deterministicScoreB p + (r - 5)))"
  by (simp add: evaluatePromptB_def Let_def)

lemma score_evaluatePromptB_penalty:
  "includes_str (toLowerCase p) (toLowerCase l) \<Longrightarrow> score (evaluatePromptB r p l) = 0"
  by (simp add: evaluatePromptB_def)

section \<open>The range of the score\<close>

text \<open>
  Claim C2, as the spec states it, fails for Variant B: a prompt that names the lab item
  gets the score 0, below the clamp of 30 to 100.
\<close>

theorem evaluatePromptB_below_clamp_counterexample:
  "\<not> (30 \<le> score (evaluatePromptB 5 ''a glass beaker'' ''beaker'') \<and>
      score (evaluatePromptB 5 ''a glass beaker'' ''beaker'') \<le> 100)"
proof -
  have "includes_str (toLowerCase ''a glass beaker'') (toLowerCase ''beaker'')"
    by (simp add: js_string_simps)
  then have "score (evaluatePromptB 5 ''a glass beaker'' ''beaker'') = 0"
    by (rule score_evaluatePromptB_penalty)
  then show ?thesis by simp
qed

text \<open>
  Claim C2, amended. The score of Variant A is an integer from 0 to 100. The score of
  Variant B is an integer from 30 to 100 when the lower-cased prompt does not contain the
  lower-cased lab item, and 0 when it does. So every score is an integer from 0 to 100.
\<close>

theorem evaluatePrompt_score_bounds:
  "0 \<le> score (evaluatePromptA r p l) \<and> score (evaluatePromptA r p l) \<le> 100 \<and>
   0 \<le> score (evaluatePromptB r p l) \<and> score (evaluatePromptB r p l) \<le> 100 \<and>
   (\<not> includes_str (toLowerCase p) (toLowerCase l) \<longrightarrow>
      30 \<le> score (evaluatePromptB r p l)) \<and>
   (includes_str (toLowerCase p) (toLowerCase l) \<longrightarrow> score (evaluatePromptB r p l) = 0)"
proof -
  have a: "0 \<le> score (evaluatePromptA r p l) \<and> score (evaluatePromptA r p l) \<le> 100"
    by (simp add: score_evaluatePromptA)
  have b: "0 \<le> score (evaluatePromptB r p l) \<and> score (evaluatePromptB r p l) \<le> 100"
    by (cases "includes_str (toLowerCase p) (toLowerCase l)")
       (simp_all add: score_evaluatePromptB_penalty score_evaluatePromptB_scored)
  have c: "\<not> includes_str (toLowerCase p) (toLowerCase l) \<longrightarrow>
             30 \<le> score (evaluatePromptB r p l)"
    by (simp add: score_evaluatePromptB_scored)
  have d: "includes_str (toLowerCase p) (toLowerCase l) \<longrightarrow> score (evaluatePromptB r p l) = 0"
    by (simp add: score_evaluatePromptB_penalty)
  from a b c d show ?thesis by blast
qed

theorem evaluatePrompt_score_bounds_witness:
  "\<not> includes_str (toLowerCase ''a glass vessel for liquid'') (toLowerCase ''beaker'') \<and>
   30 \<le> score (evaluatePromptB 3 ''a glass vessel for liquid'' ''beaker'') \<and>
   score (evaluatePromptB 3 ''a glass vessel for liquid'' ''beaker'') \<le> 100 \<and>
   0 \<le> score (evaluatePromptA 3 ''a glass vessel for liquid'' ''beaker'') \<and>
   score (evaluatePromptA 3 ''a glass vessel for liquid'' ''beaker'') \<le> 100 \<and>
   includes_str (toLowerCase ''a glass beaker'') (toLowerCase ''beaker'') \<and>
   score (evaluatePromptB 3 ''a glass beaker'' ''beaker'') = 0"
proof -
  have h1: "\<not> includes_str (toLowerCase ''a glass vessel for liquid'') (toLowerCase ''beaker'')"
    by (simp add: js_string_simps)
  have h2: "includes_str (toLowerCase ''a glass beaker'') (toLowerCase ''beaker'')"
    by (simp add: js_string_simps)
  from h1 h2
    evaluatePrompt_score_bounds [of 3 "''a glass vessel for liquid''" "''beaker''"]
    evaluatePrompt_score_bounds [of 3 "''a glass beaker''" "''beaker''"]
  show ?thesis by blast
qed

text \<open>
  Claim C10. In Variant B the score is either exactly 0 (the penalty path) or lies between
  30 and 100 (the clamped path): no input gives a score from 1 to 29.
\<close>

theorem evaluatePromptB_score_zero_or_clamped:
  "(score (evaluatePromptB r p l) = 0 \<or>
    (30 \<le> score (evaluatePromptB r p l) \<and> score (evaluatePromptB r p l) \<le> 100)) \<and>
   \<not> (0 < score (evaluatePromptB r p l) \<and> score (evaluatePromptB r p l) < 30)"
  by (cases "includes_str (toLowerCase p) (toLowerCase l)")
     (simp_all add: score_evaluatePromptB_penalty score_evaluatePromptB_scored)

theorem evaluatePromptB_score_zero_or_clamped_witness:
  "score (evaluatePromptB 0 [] ''beaker'') = 45 \<and>
   \<not> (0 < score (evaluatePromptB 0 [] ''beaker'') \<and> score (evaluatePromptB 0 [] ''beaker'') < 30)"
proof -
  have h: "\<not> includes_str (toLowerCase []) (toLowerCase ''beaker'')"
    by (simp add: js_string_simps)
  have "scienceCount scienceKeywordsB (toLowerCase []) = 0"
    by (simp add: scienceCount_def scienceKeywordsB_def toLowerCase_def)
  then have "deterministicScoreB [] = 50"
    by (simp add: deterministicScoreB_def keywordBonusB_def)
  then have "score (evaluatePromptB 0 [] ''beaker'') = 45"
    by (simp add: score_evaluatePromptB_scored [OF h])
  with evaluatePromptB_score_zero_or_clamped [of 0 "[]" "''beaker''"] show ?thesis by blast
qed

section \<open>Mentioning the lab item in Variant A\<close>

text \<open>
  Claim C3. In Variant A, a prompt whose lower-cased text contains the lower-cased lab item
  has a strictly greater deterministic score than a prompt that does not contain it: by
  exactly 30 when the two prompts match the same number of keywords, and by at least 10
  whatever the keywords are. With the same random draw (0 to 9) the final scores are in the
  same strict order.
\<close>

theorem evaluatePromptA_mention_strictly_increases:
  assumes "includes_str (toLowerCase p1) (toLowerCase l)"
    and "\<not> includes_str (toLowerCase p2) (toLowerCase l)"
  shows "deterministicScoreA p2 l < deterministicScoreA p1 l \<and>
         deterministicScoreA p2 l + 10 \<le> deterministicScoreA p1 l \<and>
         (scienceCount scienceKeywordsA (toLowerCase p1) =
            scienceCount scienceKeywordsA (toLowerCase p2) \<longrightarrow>
          deterministicScoreA p1 l = deterministicScoreA p2 l + 30) \<and>
         (0 \<le> r \<and> r \<le> 9 \<longrightarrow>
          score (evaluatePromptA r p2 l) < score (evaluatePromptA r p1 l))"
proof -
  let ?b1 = "keywordBonusA (scienceCount scienceKeywordsA (toLowerCase p1))"
  let ?b2 = "keywordBonusA (scienceCount scienceKeywordsA (toLowerCase p2))"
  have d1: "deterministicScoreA p1 l = 80 + ?b1"
    using assms(1) by (rule deterministicScoreA_mentioned)
  have d2: "deterministicScoreA p2 l = 50 + ?b2"
    using assms(2) by (rule deterministicScoreA_not_mentioned)
  have r1: "0 \<le> ?b1 \<and> ?b1 \<le> 20"
    by (rule keywordBonusA_range [OF scienceCount_nonneg])
  have r2: "0 \<le> ?b2 \<and> ?b2 \<le> 20"
    by (rule keywordBonusA_range [OF scienceCount_nonneg])
  have strict: "deterministicScoreA p2 l < deterministicScoreA p1 l"
    using d1 d2 r1 r2 by linarith
  have same: "scienceCount scienceKeywordsA (toLowerCase p1) =
                scienceCount scienceKeywordsA (toLowerCase p2) \<longrightarrow>
              deterministicScoreA p1 l = deterministicScoreA p2 l + 30"
    using d1 d2 by simp
  have final: "0 \<le> r \<and> r \<le> 9 \<longrightarrow>
               score (evaluatePromptA r p2 l) < score (evaluatePromptA r p1 l)"
  proof
    assume rr: "0 \<le> r \<and> r \<le> 9"
    have "score (evaluatePromptA r p2 l) = 50 + ?b2 + (r - 5)"
      using d2 r2 rr by (simp add: score_evaluatePromptA)
    moreover have "75 \<le> score (evaluatePromptA r p1 l)"
      using d1 r1 rr by (simp add: score_evaluatePromptA)
    ultimately show "score (evaluatePromptA r p2 l) < score (evaluatePromptA r p1 l)"
      using r2 rr by linarith
  qed
  have gap: "deterministicScoreA p2 l + 10 \<le> deterministicScoreA p1 l"
    using d1 d2 r1 r2 by linarith
  from strict gap same final show ?thesis by blast
qed

theorem evaluatePromptA_mention_strictly_increases_witness:
  "includes_str (toLowerCase ''a tall Cylinder on a bench'') (toLowerCase ''cylinder'') \<and>
   \<not> includes_str (toLowerCase ''a tall vessel on a bench'') (toLowerCase ''cylinder'') \<and>
   deterministicScoreA ''a tall vessel on a bench'' ''cylinder''
     < deterministicScoreA ''a tall Cylinder on a bench'' ''cylinder'' \<and>
   deterministicScoreA ''a tall Cylinder on a bench'' ''cylinder'' =
     deterministicScoreA ''a tall vessel on a bench'' ''cylinder'' + 30 \<and>
   score (evaluatePromptA 4 ''a tall vessel on a bench'' ''cylinder'')
     < score (evaluatePromptA 4 ''a tall Cylinder on a bench'' ''cylinder'')"
proof -
  have h1: "includes_str (toLowerCase ''a tall Cylinder on a bench'') (toLowerCase ''cylinder'')"
    by (simp add: js_string_simps)
  have h2: "\<not> includes_str (toLowerCase ''a tall vessel on a bench'') (toLowerCase ''cylinder'')"
    by (simp add: js_string_simps)
  have c1: "scienceCount scienceKeywordsA (toLowerCase ''a tall Cylinder on a bench'') = 0"
    by (simp add: scienceCount_def scienceKeywordsA_def js_string_simps)
  have c2: "scienceCount scienceKeywordsA (toLowerCase ''a tall vessel on a bench'') = 0"
    by (simp add: scienceCount_def scienceKeywordsA_def js_string_simps)
  have r: "(0::int) \<le> 4 \<and> (4::int) \<le> 9" by simp
  from h1 h2 c1 c2 r evaluatePromptA_mention_strictly_increases [OF h1 h2, of 4]
  show ?thesis by simp
qed

section \<open>The science keywords bonus\<close>

lemma length_filter_mono:
  "(\<And>x. x \<in> set xs \<Longrightarrow> P x \<Longrightarrow> Q x) \<Longrightarrow> length (filter P xs) \<le> length (filter Q xs)"
proof (induction xs)
  case Nil
  show ?case by simp
next
  case (Cons a as)
  then have ih: "length (filter P as) \<le> length (filter Q as)" by simp
  show ?case
  proof (cases "P a")
    case True
    with Cons.prems have "Q a" by simp
    with True ih show ?thesis by simp
  next
    case False
    with ih show ?thesis by simp
  qed
qed

lemma scienceCount_mono:
  assumes "includes_str p2 p1"
  shows "scienceCount ks (toLowerCase p1) \<le> scienceCount ks (toLowerCase p2)"
proof -
  have low: "includes_str (toLowerCase p2) (toLowerCase p1)"
    using assms by (rule includes_str_toLowerCase)
  have "length (filter (\<lambda>word. includes_str (toLowerCase p1) word) ks)
          \<le> length (filter (\<lambda>word. includes_str (toLowerCase p2) word) ks)"
    by (rule length_filter_mono) (rule includes_str_trans [OF low])
  then show ?thesis by (simp add: scienceCount_def)
qed

lemma scienceCount_card:
  "distinct ks \<Longrightarrow> scienceCount ks pl = int (card {w \<in> set ks. includes_str pl w})"
proof -
  assume "distinct ks"
  then have "length (filter (\<lambda>word. includes_str pl word) ks) =
             card ({w. includes_str pl w} \<inter> set ks)"
    by (rule distinct_length_filter)
  moreover have "{w. includes_str pl w} \<inter> set ks = {w \<in> set ks. includes_str pl w}"
    by blast
  ultimately show ?thesis by (simp add: scienceCount_def)
qed

lemma distinct_scienceKeywordsA: "distinct scienceKeywordsA"
  by (simp add: scienceKeywordsA_def)

lemma distinct_scienceKeywordsB: "distinct scienceKeywordsB"
  by (simp add: scienceKeywordsB_def)

text \<open>
  Claim C4. In both variants the keyword bonus is a non-decreasing function of the number
  of matched keywords and never exceeds 20: it is 5 times the number up to four matches
  and 20 from four on in Variant A, 4 times the number up to five matches and 20 from five
  on in Variant B. The number counted is the number of distinct keywords of the
  list that occur in the lower-cased prompt, and a prompt that contains another prompt
  matches at least as many keywords, so its bonus is at least as large.
\<close>

theorem keywordBonus_monotone_saturating:
  "(c1 \<le> c2 \<longrightarrow> keywordBonusA c1 \<le> keywordBonusA c2 \<and> keywordBonusB c1 \<le> keywordBonusB c2) \<and>
   keywordBonusA c \<le> 20 \<and> keywordBonusB c \<le> 20 \<and>
   (c \<le> 4 \<longrightarrow> keywordBonusA c = 5 * c) \<and>
   (c \<le> 5 \<longrightarrow> keywordBonusB c = 4 * c) \<and>
   (4 \<le> c \<longrightarrow> keywordBonusA c = 20) \<and>
   (5 \<le> c \<longrightarrow> keywordBonusB c = 20) \<and>
   scienceCount scienceKeywordsA pl = int (card {w \<in> set scienceKeywordsA. includes_str pl w}) \<and>
   scienceCount scienceKeywordsB pl = int (card {w \<in> set scienceKeywordsB. includes_str pl w}) \<and>
   (includes_str p2 p1 \<longrightarrow>
      keywordBonusA (scienceCount scienceKeywordsA (toLowerCase p1))
        \<le> keywordBonusA (scienceCount scienceKeywordsA (toLowerCase p2)) \<and>
      keywordBonusB (scienceCount scienceKeywordsB (toLowerCase p1))
        \<le> keywordBonusB (scienceCount scienceKeywordsB (toLowerCase p2)))"
proof -
  have mono: "\<And>a b. a \<le> b \<Longrightarrow> keywordBonusA a \<le> keywordBonusA b \<and> keywordBonusB a \<le> keywordBonusB b"
    unfolding keywordBonusA_def keywordBonusB_def by linarith
  have m: "c1 \<le> c2 \<longrightarrow> keywordBonusA c1 \<le> keywordBonusA c2 \<and> keywordBonusB c1 \<le> keywordBonusB c2"
    using mono by blast
  have cap: "keywordBonusA c \<le> 20 \<and> keywordBonusB c \<le> 20"
    by (simp add: keywordBonusA_def keywordBonusB_def)
  have pinA: "c \<le> 4 \<longrightarrow> keywordBonusA c = 5 * c"
    by (simp add: keywordBonusA_def)
  have pinB: "c \<le> 5 \<longrightarrow> keywordBonusB c = 4 * c"
    by (simp add: keywordBonusB_def)
  have satA: "4 \<le> c \<longrightarrow> keywordBonusA c = 20"
    by (simp add: keywordBonusA_def)
  have satB: "5 \<le> c \<longrightarrow> keywordBonusB c = 20"
    by (simp add: keywordBonusB_def)
  have cardA: "scienceCount scienceKeywordsA pl =
               int (card {w \<in> set scienceKeywordsA. includes_str pl w})"
    by (rule scienceCount_card [OF distinct_scienceKeywordsA])
  have cardB: "scienceCount scienceKeywordsB pl =
               int (card {w \<in> set scienceKeywordsB. includes_str pl w})"
    by (rule scienceCount_card [OF distinct_scienceKeywordsB])
  have prompts: "includes_str p2 p1 \<longrightarrow>
      keywordBonusA (scienceCount scienceKeywordsA (toLowerCase p1))
        \<le> keywordBonusA (scienceCount scienceKeywordsA (toLowerCase p2)) \<and>
      keywordBonusB (scienceCount scienceKeywordsB (toLowerCase p1))
        \<le> keywordBonusB (scienceCount scienceKeywordsB (toLowerCase p2))"
    using mono scienceCount_mono by blast
  from m cap pinA pinB satA satB cardA cardB prompts show ?thesis by blast
qed

theorem keywordBonus_monotone_saturating_witness:
  "(2::int) \<le> 3 \<and> keywordBonusA 2 \<le> keywordBonusA 3 \<and> keywordBonusB 2 \<le> keywordBonusB 3 \<and>
   (3::int) \<le> 4 \<and> keywordBonusA 3 = 15 \<and> (3::int) \<le> 5 \<and> keywordBonusB 3 = 12 \<and>
   (4::int) \<le> 7 \<and> keywordBonusA 7 = 20 \<and> (5::int) \<le> 7 \<and> keywordBonusB 7 = 20 \<and>
   includes_str ''a lab flask of glass'' ''a lab flask'' \<and>
   keywordBonusA (scienceCount scienceKeywordsA (toLowerCase ''a lab flask'')) = 10 \<and>
   keywordBonusA (scienceCount scienceKeywordsA (toLowerCase ''a lab flask of glass'')) = 10 \<and>
   keywordBonusB (scienceCount scienceKeywordsB (toLowerCase ''a lab flask'')) = 8 \<and>
   keywordBonusB (scienceCount scienceKeywordsB (toLowerCase ''a lab flask of glass'')) = 12 \<and>
   keywordBonusA (scienceCount scienceKeywordsA (toLowerCase ''a lab flask''))
     \<le> keywordBonusA (scienceCount scienceKeywordsA (toLowerCase ''a lab flask of glass'')) \<and>
   keywordBonusB (scienceCount scienceKeywordsB (toLowerCase ''a lab flask''))
     \<le> keywordBonusB (scienceCount scienceKeywordsB (toLowerCase ''a lab flask of glass''))"
proof -
  have h1: "(2::int) \<le> 3" by simp
  have h2: "(4::int) \<le> 7" by simp
  have h3: "(5::int) \<le> 7" by simp
  have h4: "includes_str ''a lab flask of glass'' ''a lab flask''" by simp
  have h5: "(3::int) \<le> 4" by simp
  have h6: "(3::int) \<le> 5" by simp
  have a1: "scienceCount scienceKeywordsA (toLowerCase ''a lab flask'') = 2"
    by (simp add: scienceCount_def scienceKeywordsA_def js_string_simps)
  have a2: "scienceCount scienceKeywordsA (toLowerCase ''a lab flask of glass'') = 2"
    by (simp add: scienceCount_def scienceKeywordsA_def js_string_simps)
  have b1: "scienceCount scienceKeywordsB (toLowerCase ''a lab flask'') = 2"
    by (simp add: scienceCount_def scienceKeywordsB_def js_string_simps)
  have b2: "scienceCount scienceKeywordsB (toLowerCase ''a lab flask of glass'') = 3"
    by (simp add: scienceCount_def scienceKeywordsB_def js_string_simps)
  have two: "(2::int) \<le> 4 \<and> (2::int) \<le> 5" by simp
  from h1 h2 h3 h4 h5 h6 two
    keywordBonus_monotone_saturating [of 2 3 7 "[]" "''a lab flask of glass''" "''a lab flask''"]
    keywordBonus_monotone_saturating [of 2 3 3 "[]" "''a lab flask of glass''" "''a lab flask''"]
    keywordBonus_monotone_saturating [of 2 3 2 "[]" "''a lab flask of glass''" "''a lab flask''"]
  show ?thesis by (simp add: a1 a2 b1 b2)
qed

section \<open>The explanation bands\<close>

lemma explanation_evaluatePromptA:
  "explanation (evaluatePromptA r p l) =
     (if 70 \<le> score (evaluatePromptA r p l) then ExcellentA l
      else if 50 \<le> score (evaluatePromptA r p l) then GoodA l
      else ArtisticA l)"
  by (simp only: evaluatePromptA_def Let_def scoreResult.select_convs)

lemma explanation_evaluatePromptB_scored:
  "\<not> includes_str (toLowerCase p) (toLowerCase l) \<Longrightarrow>
   explanation (evaluatePromptB r p l) =
     (if 80 \<le> score (evaluatePromptB r p l) then ExcellentB
      else if 60 \<le> score (evaluatePromptB r p l) then GoodB
      else CreativeB)"
  by (simp only: evaluatePromptB_def Let_def scoreResult.select_convs if_False)

text \<open>
  Claim C5, as the spec states it, fails for Variant B: there the strong band starts at 80
  and the moderate band at 60, so a final score of exactly 70 selects the moderate wording.
  The prompt below matches five keywords (lab, science, research, flask, test), is 31
  characters long and does not name the lab item; with the draw 5 the variation is 0.
\<close>

theorem evaluatePromptB_score_70_counterexample:
  "score (evaluatePromptB 5 ''lab science research flask test'' ''beaker'') = 70 \<and>
   explanation (evaluatePromptB 5 ''lab science research flask test'' ''beaker'') = GoodB \<and>
   explanation (evaluatePromptB 5 ''lab science research flask test'' ''beaker'') \<noteq> ExcellentB"
proof -
  have h: "\<not> includes_str (toLowerCase ''lab science research flask test'') (toLowerCase ''beaker'')"
    by (simp add: js_string_simps)
  have "scienceCount scienceKeywordsB (toLowerCase ''lab science research flask test'') = 5"
    by (simp add: scienceCount_def scienceKeywordsB_def js_string_simps)
  then have "deterministicScoreB ''lab science research flask test'' = 70"
    by (simp add: deterministicScoreB_def keywordBonusB_def)
  then have s: "score (evaluatePromptB 5 ''lab science research flask test'' ''beaker'') = 70"
    by (simp add: score_evaluatePromptB_scored [OF h])
  then have "explanation (evaluatePromptB 5 ''lab science research flask test'' ''beaker'') = GoodB"
    by (simp add: explanation_evaluatePromptB_scored [OF h])
  with s show ?thesis by simp
qed

text \<open>
  Claim C5, amended. The explanation is selected from the final score by comparisons with
  \<open>\<ge>\<close>. In Variant A the strong wording is returned from 70 on (so at exactly 70), the
  moderate wording from 50 to 69 and the artistic wording below 50. In Variant B, on the
  path without penalty, the strong wording is returned from 80 on, the moderate wording
  from 60 to 79 (so at exactly 70) and the artistic wording below 60.
\<close>

theorem explanation_bands:
  "explanation (evaluatePromptA r p l) =
     (if score (evaluatePromptA r p l) \<ge> 70 then ExcellentA l
      else if score (evaluatePromptA r p l) \<ge> 50 then GoodA l
      else ArtisticA l) \<and>
   (score (evaluatePromptA r p l) = 70 \<longrightarrow> explanation (evaluatePromptA r p l) = ExcellentA l) \<and>
   (\<not> includes_str (toLowerCase p) (toLowerCase l) \<longrightarrow>
      explanation (evaluatePromptB r p l) =
        (if score (evaluatePromptB r p l) \<ge> 80 then ExcellentB
         else if score (evaluatePromptB r p l) \<ge> 60 then GoodB
         else CreativeB)) \<and>
   (score (evaluatePromptB r p l) = 70 \<longrightarrow> explanation (evaluatePromptB r p l) = GoodB)"
proof -
  have a: "explanation (evaluatePromptA r p l) =
     (if score (evaluatePromptA r p l) \<ge> 70 then ExcellentA l
      else if score (evaluatePromptA r p l) \<ge> 50 then GoodA l
      else ArtisticA l)"
    by (rule explanation_evaluatePromptA)
  have a70: "score (evaluatePromptA r p l) = 70 \<longrightarrow> explanation (evaluatePromptA r p l) = ExcellentA l"
    using a by simp
  have b: "\<not> includes_str (toLowerCase p) (toLowerCase l) \<longrightarrow>
      explanation (evaluatePromptB r p l) =
        (if score (evaluatePromptB r p l) \<ge> 80 then ExcellentB
         else if score (evaluatePromptB r p l) \<ge> 60 then GoodB
         else CreativeB)"
    using explanation_evaluatePromptB_scored by blast
  have b70: "score (evaluatePromptB r p l) = 70 \<longrightarrow> explanation (evaluatePromptB r p l) = GoodB"
  proof
    assume s: "score (evaluatePromptB r p l) = 70"
    have n: "\<not> includes_str (toLowerCase p) (toLowerCase l)"
    proof
      assume "includes_str (toLowerCase p) (toLowerCase l)"
      then have "score (evaluatePromptB r p l) = 0" by (rule score_evaluatePromptB_penalty)
      with s show False by simp
    qed
    from s show "explanation (evaluatePromptB r p l) = GoodB"
      by (simp add: explanation_evaluatePromptB_scored [OF n])
  qed
  from a a70 b b70 show ?thesis by blast
qed

theorem explanation_bands_witness:
  "score (evaluatePromptA 5 ''lab science research flask'' ''beaker'') = 70 \<and>
   explanation (evaluatePromptA 5 ''lab science research flask'' ''beaker'') = ExcellentA ''beaker'' \<and>
   \<not> includes_str (toLowerCase ''lab science research flask test'') (toLowerCase ''beaker'') \<and>
   score (evaluatePromptB 5 ''lab science research flask test'' ''beaker'') = 70 \<and>
   explanation (evaluatePromptB 5 ''lab science research flask test'' ''beaker'') = GoodB"
proof -
  have hA: "\<not> includes_str (toLowerCase ''lab science research flask'') (toLowerCase ''beaker'')"
    by (simp add: js_string_simps)
  have "scienceCount scienceKeywordsA (toLowerCase ''lab science research flask'') = 4"
    by (simp add: scienceCount_def scienceKeywordsA_def js_string_simps)
  then have "deterministicScoreA ''lab science research flask'' ''beaker'' = 70"
    by (simp add: deterministicScoreA_not_mentioned [OF hA] keywordBonusA_def)
  then have sA: "score (evaluatePromptA 5 ''lab science research flask'' ''beaker'') = 70"
    by (simp add: score_evaluatePromptA)
  have hB: "\<not> includes_str (toLowerCase ''lab science research flask test'') (toLowerCase ''beaker'')"
    by (simp add: js_string_simps)
  have "scienceCount scienceKeywordsB (toLowerCase ''lab science research flask test'') = 5"
    by (simp add: scienceCount_def scienceKeywordsB_def js_string_simps)
  then have "deterministicScoreB ''lab science research flask test'' = 70"
    by (simp add: deterministicScoreB_def keywordBonusB_def)
  then have sB: "score (evaluatePromptB 5 ''lab science research flask test'' ''beaker'') = 70"
    by (simp add: score_evaluatePromptB_scored [OF hB])
  from sA sB hB
    explanation_bands [of 5 "''lab science research flask''" "''beaker''"]
    explanation_bands [of 5 "''lab science research flask test''" "''beaker''"]
  show ?thesis by blast
qed

section \<open>The worked example of Variant A\<close>

text \<open>
  Claim C6. In Variant A the prompt "a laboratory beaker with blue liquid" with the lab
  item "beaker" gets the mention bonus of 30 and a keyword bonus of 15 for three matched
  keywords, a deterministic subtotal of exactly 95, and, for every random draw from 0 to 9,
  a final score of 90 plus the draw (at most 100) with the strong wording. The three
  keywords matched by the list of Variant A are laboratory, lab and beaker.
\<close>

theorem evaluatePromptA_beaker_example:
  "0 \<le> r \<and> r \<le> 9 \<Longrightarrow>
   includes_str (toLowerCase ''a laboratory beaker with blue liquid'') (toLowerCase ''beaker'') \<and>
   filter (\<lambda>word. includes_str (toLowerCase ''a laboratory beaker with blue liquid'') word)
     scienceKeywordsA = [''laboratory'', ''lab'', ''beaker''] \<and>
   scienceCount scienceKeywordsA (toLowerCase ''a laboratory beaker with blue liquid'') = 3 \<and>
   keywordBonusA 3 = 15 \<and>
   deterministicScoreA ''a laboratory beaker with blue liquid'' ''beaker'' = 50 + 30 + 15 \<and>
   deterministicScoreA ''a laboratory beaker with blue liquid'' ''beaker'' = 95 \<and>
   evaluatePromptA r ''a laboratory beaker with blue liquid'' ''beaker'' =
     \<lparr>score = 90 + r, explanation = ExcellentA ''beaker''\<rparr> \<and>
   score (evaluatePromptA r ''a laboratory beaker with blue liquid'' ''beaker'') \<le> 100"
proof -
  assume rr: "0 \<le> r \<and> r \<le> 9"
  let ?p = "''a laboratory beaker with blue liquid''"
  have m: "includes_str (toLowerCase ?p) (toLowerCase ''beaker'')"
    by (simp add: js_string_simps)
  have f: "filter (\<lambda>word. includes_str (toLowerCase ?p) word) scienceKeywordsA =
             [''laboratory'', ''lab'', ''beaker'']"
    by (simp add: scienceKeywordsA_def js_string_simps)
  have c: "scienceCount scienceKeywordsA (toLowerCase ?p) = 3"
    by (simp add: scienceCount_def f)
  have b: "keywordBonusA 3 = 15"
    by (simp add: keywordBonusA_def)
  have d: "deterministicScoreA ?p ''beaker'' = 95"
    by (simp add: deterministicScoreA_mentioned [OF m] c b)
  have s: "score (evaluatePromptA r ?p ''beaker'') = 90 + r"
    using rr by (simp add: score_evaluatePromptA d)
  have e: "explanation (evaluatePromptA r ?p ''beaker'') = ExcellentA ''beaker''"
    using rr by (simp add: explanation_evaluatePromptA s)
  have v: "evaluatePromptA r ?p ''beaker'' = \<lparr>score = 90 + r, explanation = ExcellentA ''beaker''\<rparr>"
    using s e by (cases "evaluatePromptA r ?p ''beaker''") simp
  have le: "score (evaluatePromptA r ?p ''beaker'') \<le> 100"
    using rr s by simp
  from m f c b d v le show ?thesis by simp
qed

theorem evaluatePromptA_beaker_example_witness:
  "(0::int) \<le> 9 \<and> (9::int) \<le> 9 \<and>
   deterministicScoreA ''a laboratory beaker with blue liquid'' ''beaker'' = 95 \<and>
   evaluatePromptA 9 ''a laboratory beaker with blue liquid'' ''beaker'' =
     \<lparr>score = 99, explanation = ExcellentA ''beaker''\<rparr>"
proof -
  have h: "(0::int) \<le> 9 \<and> (9::int) \<le> 9" by simp
  from h evaluatePromptA_beaker_example [OF h] show ?thesis by simp
qed

section \<open>Empty strings\<close>

lemma scienceCountA_empty_prompt: "scienceCount scienceKeywordsA (toLowerCase []) = 0"
  by (simp add: scienceCount_def scienceKeywordsA_def toLowerCase_def)

lemma scienceCountB_empty_prompt: "scienceCount scienceKeywordsB (toLowerCase []) = 0"
  by (simp add: scienceCount_def scienceKeywordsB_def toLowerCase_def)

lemma empty_prompt_not_mentioned:
  "l \<noteq> [] \<Longrightarrow> \<not> includes_str (toLowerCase []) (toLowerCase l)"
  by (simp add: toLowerCase_def)

lemma empty_labItem_mentioned: "includes_str (toLowerCase p) (toLowerCase [])"
  by (simp add: toLowerCase_Nil includes_str_empty)

text \<open>
  Claim C9, as the spec states it, fails for the empty lab item: every string contains the
  empty string, so the mention test succeeds. Variant A then adds the mention bonus of 30
  (the prompt below matches no keyword and still has the deterministic score 80), and
  Variant B returns the penalty.
\<close>

theorem evaluatePrompt_empty_labItem_counterexample:
  "includes_str (toLowerCase ''round vessel'') (toLowerCase []) \<and>
   scienceCount scienceKeywordsA (toLowerCase ''round vessel'') = 0 \<and>
   deterministicScoreA ''round vessel'' [] = 80 \<and>
   deterministicScoreA [] [] = 80 \<and>
   evaluatePromptB 5 ''round vessel'' [] = \<lparr>score = 0, explanation = ForbiddenWord []\<rparr>"
proof -
  have m: "includes_str (toLowerCase ''round vessel'') (toLowerCase [])"
    by (rule empty_labItem_mentioned)
  have c: "scienceCount scienceKeywordsA (toLowerCase ''round vessel'') = 0"
    by (simp add: scienceCount_def scienceKeywordsA_def js_string_simps)
  have d: "deterministicScoreA ''round vessel'' [] = 80"
    by (simp add: deterministicScoreA_mentioned [OF m] c keywordBonusA_def)
  have d0: "deterministicScoreA [] [] = 80"
    by (simp add: deterministicScoreA_mentioned [OF empty_labItem_mentioned]
        scienceCountA_empty_prompt keywordBonusA_def)
  have b: "evaluatePromptB 5 ''round vessel'' [] = \<lparr>score = 0, explanation = ForbiddenWord []\<rparr>"
    using m by (simp add: evaluatePromptB_def)
  from m c d d0 b show ?thesis by simp
qed

text \<open>
  Claim C9, amended. The scorer is total: on every pair of strings, empty ones included,
  both variants return a result whose score is an integer from 0 to 100 and whose
  explanation is one of the variant's wordings. For an empty prompt no keyword matches and
  the keyword bonus is zero; if the lab item is not empty, the empty prompt does not
  mention it, so Variant A adds no mention bonus and Variant B applies no penalty.
\<close>

theorem evaluatePrompt_total_wellformed:
  "(\<exists>s e. evaluatePromptA r p l = \<lparr>score = s, explanation = e\<rparr> \<and> 0 \<le> s \<and> s \<le> 100 \<and>
          e \<in> {ExcellentA l, GoodA l, ArtisticA l}) \<and>
   (\<exists>s e. evaluatePromptB r p l = \<lparr>score = s, explanation = e\<rparr> \<and> 0 \<le> s \<and> s \<le> 100 \<and>
          e \<in> {ForbiddenWord l, ExcellentB, GoodB, CreativeB}) \<and>
   scienceCount scienceKeywordsA (toLowerCase []) = 0 \<and>
   scienceCount scienceKeywordsB (toLowerCase []) = 0 \<and>
   keywordBonusA 0 = 0 \<and> keywordBonusB 0 = 0 \<and>
   (l \<noteq> [] \<longrightarrow>
      \<not> includes_str (toLowerCase []) (toLowerCase l) \<and>
      deterministicScoreA [] l = 50 \<and>
      deterministicScoreB [] = 50 \<and>
      score (evaluatePromptA r [] l) = max 0 (min 100 (45 + r)) \<and>
      score (evaluatePromptB r [] l) = max 30 (min 100 (45 + r)))"
proof -
  have a: "\<exists>s e. evaluatePromptA r p l = \<lparr>score = s, explanation = e\<rparr> \<and> 0 \<le> s \<and> s \<le> 100 \<and>
          e \<in> {ExcellentA l, GoodA l, ArtisticA l}"
  proof -
    let ?x = "evaluatePromptA r p l"
    have "?x = \<lparr>score = score ?x, explanation = explanation ?x\<rparr>" by simp
    moreover have "0 \<le> score ?x \<and> score ?x \<le> 100"
      by (simp add: score_evaluatePromptA)
    moreover have "explanation ?x \<in> {ExcellentA l, GoodA l, ArtisticA l}"
      by (simp add: explanation_evaluatePromptA)
    ultimately show ?thesis by blast
  qed
  have b: "\<exists>s e. evaluatePromptB r p l = \<lparr>score = s, explanation = e\<rparr> \<and> 0 \<le> s \<and> s \<le> 100 \<and>
          e \<in> {ForbiddenWord l, ExcellentB, GoodB, CreativeB}"
  proof (cases "includes_str (toLowerCase p) (toLowerCase l)")
    case True
    then have "evaluatePromptB r p l = \<lparr>score = 0, explanation = ForbiddenWord l\<rparr>"
      by (simp add: evaluatePromptB_def)
    then show ?thesis by simp
  next
    case False
    let ?x = "evaluatePromptB r p l"
    have "?x = \<lparr>score = score ?x, explanation = explanation ?x\<rparr>" by simp
    moreover have "0 \<le> score ?x \<and> score ?x \<le> 100"
      by (simp add: score_evaluatePromptB_scored [OF False])
    moreover have "explanation ?x \<in> {ForbiddenWord l, ExcellentB, GoodB, CreativeB}"
      by (simp add: explanation_evaluatePromptB_scored [OF False])
    ultimately show ?thesis by blast
  qed
  have k: "keywordBonusA 0 = 0 \<and> keywordBonusB 0 = 0"
    by (simp add: keywordBonusA_def keywordBonusB_def)
  have e: "l \<noteq> [] \<longrightarrow>
      \<not> includes_str (toLowerCase []) (toLowerCase l) \<and>
      deterministicScoreA [] l = 50 \<and>
      deterministicScoreB [] = 50 \<and>
      score (evaluatePromptA r [] l) = max 0 (min 100 (45 + r)) \<and>
      score (evaluatePromptB r [] l) = max 30 (min 100 (45 + r))"
  proof
    assume "l \<noteq> []"
    then have n: "\<not> includes_str (toLowerCase []) (toLowerCase l)"
      by (rule empty_prompt_not_mentioned)
    have dA: "deterministicScoreA [] l = 50"
      using k by (simp add: deterministicScoreA_not_mentioned [OF n] scienceCountA_empty_prompt)
    have dB: "deterministicScoreB [] = 50"
      using k by (simp add: deterministicScoreB_def scienceCountB_empty_prompt)
    have sA: "score (evaluatePromptA r [] l) = max 0 (min 100 (45 + r))"
      by (simp add: score_evaluatePromptA dA)
    have sB: "score (evaluatePromptB r [] l) = max 30 (min 100 (45 + r))"
      by (simp add: score_evaluatePromptB_scored [OF n] dB)
    from n dA dB sA sB
    show "\<not> includes_str (toLowerCase []) (toLowerCase l) \<and>
      deterministicScoreA [] l = 50 \<and>
      deterministicScoreB [] = 50 \<and>
      score (evaluatePromptA r [] l) = max 0 (min 100 (45 + r)) \<and>
      score (evaluatePromptB r [] l) = max 30 (min 100 (45 + r))" by blast
  qed
  from a b k e scienceCountA_empty_prompt scienceCountB_empty_prompt show ?thesis by blast
qed

theorem evaluatePrompt_total_wellformed_witness:
  "''beaker'' \<noteq> [] \<and>
   \<not> includes_str (toLowerCase []) (toLowerCase ''beaker'') \<and>
   deterministicScoreA [] ''beaker'' = 50 \<and>
   deterministicScoreB [] = 50 \<and>
   score (evaluatePromptA 7 [] ''beaker'') = 52 \<and>
   score (evaluatePromptB 7 [] ''beaker'') = 52"
proof -
  have h: "''beaker'' \<noteq> []" by simp
  from h evaluatePrompt_total_wellformed [of 7 "[]" "''beaker''"] show ?thesis by simp
qed

section \<open>Missing input\<close>

text \<open>
  Claim C8. When the prompt, the lab item or the team name of a request is missing (absent
  or falsy), the handler answers with status 400 and \<^verbatim>\<open>success: false\<close> before any
  call of the image generator or of an evaluator, whatever the collaborators would return:
  among its effects there is no call. The CLIP copy has no effect at all besides the
  answer; the penalty copy has written five console lines about the request, and logging
  is out of the spec's scope.
\<close>

theorem missing_input_rejected:
  "falsy (prompt req) \<or> falsy (labItem req) \<or> falsy (teamName req) \<Longrightarrow>
   generateAndEvaluateCLIP generateImage evaluateWithCLIP req =
     ([], \<lparr>status = 400,
           body = Failure ''Missing required fields: prompt, labItem, or teamName''\<rparr>) \<and>
   generateAndEvaluatePenalty generateImage randomDraw req =
     ([ConsoleLog, ConsoleLog, ConsoleLog, ConsoleLog, ConsoleLog],
      \<lparr>status = 400, body = Failure ''Missing required fields''\<rparr>) \<and>
   calls (fst (generateAndEvaluateCLIP generateImage evaluateWithCLIP req)) = [] \<and>
   calls (fst (generateAndEvaluatePenalty generateImage randomDraw req)) = []"
  by (simp add: generateAndEvaluateCLIP_def generateAndEvaluatePenalty_def calls_def)

theorem missing_input_rejected_witness:
  "falsy (labItem \<lparr>prompt = Some ''a glass vessel'', labItem = Some [], teamName = Some ''Team 1''\<rparr>) \<and>
   generateAndEvaluateCLIP (\<lambda>p. Inr ''iVBORw0KGgo='')
       (\<lambda>i l. Inr \<lparr>score = 80, explanation = ExcellentB\<rparr>)
       \<lparr>prompt = Some ''a glass vessel'', labItem = Some [], teamName = Some ''Team 1''\<rparr> =
     ([], \<lparr>status = 400,
           body = Failure ''Missing required fields: prompt, labItem, or teamName''\<rparr>) \<and>
   generateAndEvaluatePenalty (\<lambda>p. Inr ''iVBORw0KGgo='') 5
       \<lparr>prompt = Some ''a glass vessel'', labItem = Some [], teamName = Some ''Team 1''\<rparr> =
     ([ConsoleLog, ConsoleLog, ConsoleLog, ConsoleLog, ConsoleLog],
      \<lparr>status = 400, body = Failure ''Missing required fields''\<rparr>)"
proof -
  let ?req = "\<lparr>prompt = Some ''a glass vessel'', labItem = Some [], teamName = Some ''Team 1''\<rparr>"
  have h: "falsy (prompt ?req) \<or> falsy (labItem ?req) \<or> falsy (teamName ?req)"
    by (simp add: falsy_def)
  have f: "falsy (labItem ?req)"
    by (simp add: falsy_def)
  from f missing_input_rejected [OF h, of "\<lambda>p. Inr ''iVBORw0KGgo=''"
      "\<lambda>i l. Inr \<lparr>score = 80, explanation = ExcellentB\<rparr>" 5]
  show ?thesis by simp
qed

text \<open>With all three fields present the image generator is called, with the prompt.\<close>

lemma present_input_generates:
  "\<not> falsy (prompt req) \<Longrightarrow> \<not> falsy (labItem req) \<Longrightarrow> \<not> falsy (teamName req) \<Longrightarrow>
   hd (calls (fst (generateAndEvaluateCLIP generateImage evaluateWithCLIP req))) =
     GenerateImage (the (prompt req)) \<and>
   hd (calls (fst (generateAndEvaluatePenalty generateImage randomDraw req))) =
     GenerateImage (the (prompt req))"
  by (simp add: generateAndEvaluateCLIP_def generateAndEvaluatePenalty_def calls_def Let_def
      split: sum.splits)

section \<open>The score derived from the CLIP result: facts\<close>

lemma scoreOrZero_confidenceAt: "scoreOrZero ops xs i = confidenceAt ops xs i"
proof (induction ops xs i rule: confidenceAt.induct)
  case (1 ops i)
  show ?case by (simp add: scoreOrZero_def at_index_def)
next
  case (2 ops e es)
  show ?case by (simp add: scoreOrZero_def at_index_def split: option.splits)
next
  case (3 ops e es i)
  then show ?case by (auto simp: scoreOrZero_def at_index_def split: option.splits if_splits)
qed

lemma clamp_range:
  "(case maxZero (minHundred r) of Finite i \<Rightarrow> 0 \<le> i \<and> i \<le> 100
     | NotANumber \<Rightarrow> True | PosInfinity \<Rightarrow> False | NegInfinity \<Rightarrow> False)"
  by (cases r) simp_all

lemma clip_score_single:
  "xs \<noteq> [] \<Longrightarrow> clip_score (evaluateWithCLIP_single ops l xs) = statedScoreSingle ops xs"
  by (simp add: evaluateWithCLIP_single_def statedScoreSingle_def clampedPercent_def Let_def
      scoreOrZero_confidenceAt)

lemma clip_score_averaged:
  "clip_score (evaluateWithCLIP_averaged ops l xs) = statedScoreAveraged ops xs"
  by (simp add: evaluateWithCLIP_averaged_def statedScoreAveraged_def clampedPercent_def Let_def
      scoreOrZero_confidenceAt)

lemma clampedPercent_Finite:
  "dround ops (dmul ops x (hundred ops)) = Finite i \<Longrightarrow>
   clampedPercent ops x = Finite (max 0 (min 100 i))"
  by (simp add: clampedPercent_def)

lemma clampedPercent_range:
  "(case clampedPercent ops x of Finite i \<Rightarrow> 0 \<le> i \<and> i \<le> 100
     | NotANumber \<Rightarrow> True | PosInfinity \<Rightarrow> False | NegInfinity \<Rightarrow> False)"
  unfolding clampedPercent_def by (rule clamp_range)

text \<open>
  Claim C7, as the spec states it, fails for the single-top copy on the empty list: every
  entry is missing, so the stated derivation gives 0 (here in exact arithmetic), but the
  code takes its fallback and answers the fixed score 50.
\<close>

theorem evaluateWithCLIP_single_empty_counterexample:
  "clip_score (evaluateWithCLIP_single exactOps ''beaker'' []) = Finite 50 \<and>
   statedScoreSingle exactOps [] = Finite 0 \<and>
   clip_score (evaluateWithCLIP_single exactOps ''beaker'' []) \<noteq> statedScoreSingle exactOps []"
proof -
  have c: "clip_score (evaluateWithCLIP_single exactOps ''beaker'' []) = Finite 50"
    by (simp add: evaluateWithCLIP_single_def)
  have s: "statedScoreSingle exactOps [] = Finite 0"
    by (simp add: statedScoreSingle_def clampedPercent_def exactOps_def)
  from c s show ?thesis by simp
qed

text \<open>
  Claim C7, amended. For a list that is not empty the single-top copy computes the first
  confidence minus the confidence at position 3 times 0.3, times 100, rounded and clamped
  to 0 and 100; for the empty list it answers the fixed score 50 with the inconclusive
  explanation. The averaged copy computes, for every list, the average of the first three
  confidences minus the confidence at position 4 times 0.5, times 100, rounded and clamped
  to 0 and 100. A missing entry and a missing or falsy score count as 0. The clamped value
  is the rounded integer brought into 0 to 100 when the rounded value is an integer, and
  in any case an integer from 0 to 100 or NaN. This holds for every arithmetic of the
  operations.
\<close>

theorem clip_score_derivation:
  "(xs \<noteq> [] \<longrightarrow> clip_score (evaluateWithCLIP_single ops l xs) = statedScoreSingle ops xs) \<and>
   evaluateWithCLIP_single ops l [] =
     \<lparr>clip_score = Finite 50, clip_explanation = Inconclusive l\<rparr> \<and>
   clip_score (evaluateWithCLIP_averaged ops l xs) = statedScoreAveraged ops xs \<and>
   (dround ops (dmul ops x (hundred ops)) = Finite i \<longrightarrow>
      clampedPercent ops x = Finite (max 0 (min 100 i))) \<and>
   (case clip_score (evaluateWithCLIP_single ops l xs) of
      Finite i \<Rightarrow> 0 \<le> i \<and> i \<le> 100
    | NotANumber \<Rightarrow> True | PosInfinity \<Rightarrow> False | NegInfinity \<Rightarrow> False) \<and>
   (case clip_score (evaluateWithCLIP_averaged ops l xs) of
      Finite i \<Rightarrow> 0 \<le> i \<and> i \<le> 100
    | NotANumber \<Rightarrow> True | PosInfinity \<Rightarrow> False | NegInfinity \<Rightarrow> False)"
proof -
  have single: "xs \<noteq> [] \<longrightarrow>
                clip_score (evaluateWithCLIP_single ops l xs) = statedScoreSingle ops xs"
    by (simp add: clip_score_single)
  have fallback: "evaluateWithCLIP_single ops l [] =
                    \<lparr>clip_score = Finite 50, clip_explanation = Inconclusive l\<rparr>"
    by (simp add: evaluateWithCLIP_single_def)
  have averaged: "clip_score (evaluateWithCLIP_averaged ops l xs) = statedScoreAveraged ops xs"
    by (rule clip_score_averaged)
  have clamp: "dround ops (dmul ops x (hundred ops)) = Finite i \<longrightarrow>
               clampedPercent ops x = Finite (max 0 (min 100 i))"
    by (simp add: clampedPercent_Finite)
  have rs: "(case clip_score (evaluateWithCLIP_single ops l xs) of
      Finite i \<Rightarrow> 0 \<le> i \<and> i \<le> 100
    | NotANumber \<Rightarrow> True | PosInfinity \<Rightarrow> False | NegInfinity \<Rightarrow> False)"
  proof (cases "xs = []")
    case True
    then show ?thesis by (simp add: evaluateWithCLIP_single_def)
  next
    case False
    then have "clip_score (evaluateWithCLIP_single ops l xs) = statedScoreSingle ops xs"
      by (rule clip_score_single)
    then show ?thesis
      unfolding statedScoreSingle_def by (simp only: clampedPercent_range)
  qed
  have ra: "(case clip_score (evaluateWithCLIP_averaged ops l xs) of
      Finite i \<Rightarrow> 0 \<le> i \<and> i \<le> 100
    | NotANumber \<Rightarrow> True | PosInfinity \<Rightarrow> False | NegInfinity \<Rightarrow> False)"
    unfolding clip_score_averaged statedScoreAveraged_def by (rule clampedPercent_range)
  from single fallback averaged clamp rs ra show ?thesis by blast
qed

theorem clip_score_derivation_witness:
  "[Some (4 / 5), Some (3 / 25), Some (1 / 20), Some (3 / 100 :: rat)] \<noteq> [] \<and>
   clip_score (evaluateWithCLIP_single exactOps ''beaker''
     [Some (4 / 5), Some (3 / 25), Some (1 / 20), Some (3 / 100)]) = Finite 79 \<and>
   clip_score (evaluateWithCLIP_averaged exactOps ''beaker''
     [Some (4 / 5), Some (3 / 25), Some (1 / 20), Some (3 / 100)]) = Finite 32 \<and>
   dround exactOps (dmul exactOps (6 / 5) (hundred exactOps)) = Finite 120 \<and>
   clampedPercent exactOps (6 / 5) = Finite 100"
proof -
  let ?xs = "[Some (4 / 5), Some (3 / 25), Some (1 / 20), Some (3 / 100 :: rat)]"
  have n: "?xs \<noteq> []" by simp
  have s: "statedScoreSingle exactOps ?xs = Finite 79"
    by (simp add: statedScoreSingle_def clampedPercent_def exactOps_def eval_nat_numeral
        floor_eq_iff)
  have a: "statedScoreAveraged exactOps ?xs = Finite 32"
    by (simp add: statedScoreAveraged_def clampedPercent_def exactOps_def eval_nat_numeral
        floor_eq_iff)
  have r: "dround exactOps (dmul exactOps (6 / 5) (hundred exactOps)) = Finite 120"
    by (simp add: exactOps_def floor_eq_iff)
  from n s a r clip_score_derivation [of ?xs exactOps "''beaker''" "6 / 5" 120]
  show ?thesis by simp
qed

end
